theory Spec2Isabelle
  imports Complex_Main
begin

section \<open>Data model\<close>

text \<open>
  The persistence layer is a relational store reached through an ORM client. Its tables are
  modelled as follows: accounts and categories are maps from the primary key to the row,
  budget months and transactions are lists of rows (they are searched by other columns
  than the key). Monetary columns are decimal columns; amounts are modelled as exact
  rationals, so the rounding of the host language's doubles is not part of the model.
  Instants (dates, month keys) are integers. Request payloads are modelled after schema
  validation, as the typed \<open>input\<close> value the handlers work on.
\<close>

type_synonym ident = string

record account =
  acc_userId :: ident
  acc_balance :: rat

record budget_month =
  bm_id :: ident
  bm_userId :: ident
  bm_month :: int
  bm_availableToBudget :: rat

record category =
  cat_budgetMonthId :: ident
  cat_assigned :: rat
  cat_spent :: rat

record transaction =
  tx_id :: ident
  tx_accountId :: ident
  tx_categoryId :: "ident option"
  tx_date :: int
  tx_payee :: "string option"
  tx_amount :: rat
  tx_memo :: "string option"
  tx_cleared :: bool

record db =
  accounts :: "ident \<rightharpoonup> account"
  budgetMonths :: "budget_month list"
  categories :: "ident \<rightharpoonup> category"
  transactions :: "transaction list"

text \<open>
  Thrown errors. \<open>Error msg\<close> is the host language's \<open>Error\<close> with its message;
  \<open>ZodError\<close> is a schema validation failure; \<open>RecordNotFound\<close> and
  \<open>UniqueConstraint\<close> are what the ORM throws when an update or delete names a row
  that does not exist, and when a created row repeats a primary key.
\<close>

datatype error = Error string | ZodError | RecordNotFound | UniqueConstraint

abbreviation CategoryNotFound :: error where
  "CategoryNotFound \<equiv> Error ''Category not found''"

abbreviation Overextended :: error where
  "Overextended \<equiv> Error ''Spending exceeds available category funds''"



datatype body =
    ErrorBody string
  | TransactionBody transaction
  | SuccessBody
  | AssignBody budget_month category

type_synonym response = "nat \<times> body"

text \<open>Payload of \<open>create\<close> after \<open>createSchema.parse\<close>; an optional, nullable field
  is \<open>None\<close> when it is undefined or null.\<close>

record create_input =
  ci_accountId :: ident
  ci_categoryId :: "ident option"
  ci_date :: int
  ci_payee :: "string option"
  ci_amount :: rat
  ci_memo :: "string option"
  ci_cleared :: "bool option"

text \<open>Payload of \<open>patch\<close> after \<open>patchSchema.parse\<close>: every field may be omitted
  (\<open>None\<close>); a nullable field that is given is \<open>Some None\<close> for null.\<close>

record patch_input =
  pi_accountId :: "ident option"
  pi_categoryId :: "ident option option"
  pi_date :: "int option"
  pi_payee :: "string option option"
  pi_amount :: "rat option"
  pi_memo :: "string option option"
  pi_cleared :: "bool option"

section \<open>The transactional client\<close>

text \<open>Sequencing of fallible steps inside a unit of work: the first thrown error ends it.\<close>

definition then_tx :: "error + 'a \<Rightarrow> ('a \<Rightarrow> error + 'b) \<Rightarrow> error + 'b" where
  "then_tx m f = (case m of Inl e \<Rightarrow> Inl e | Inr x \<Rightarrow> f x)"

text \<open>
  The interactive transaction of the ORM client: the callback runs against the store; when
  it returns, whatever it wrote is committed and its value is the result; when it throws,
  the store is left as it was and the error propagates.
\<close>

definition prisma_transaction ::
  "(db \<Rightarrow> error + (response \<times> db)) \<Rightarrow> db \<Rightarrow> (error + response) \<times> db" where
  "prisma_transaction work s =
     (case work s of Inl e \<Rightarrow> (Inl e, s) | Inr (r, s') \<Rightarrow> (Inr r, s'))"

definition account_findFirst :: "db \<Rightarrow> ident \<Rightarrow> ident \<Rightarrow> account option" where
  "account_findFirst tx accountId userId =
     (case accounts tx accountId of
        None \<Rightarrow> None
      | Some a \<Rightarrow> if acc_userId a = userId then Some a else None)"

definition account_update_balance :: "db \<Rightarrow> ident \<Rightarrow> rat \<Rightarrow> error + db" where
  "account_update_balance tx accountId increment =
     (case accounts tx accountId of
        None \<Rightarrow> Inl RecordNotFound
      | Some a \<Rightarrow>
          Inr (tx\<lparr>accounts := (accounts tx)(accountId \<mapsto> a\<lparr>acc_balance := acc_balance a + increment\<rparr>)\<rparr>))"

text \<open>The category with the given id whose budget month belongs to the user.\<close>

definition category_findFirst :: "db \<Rightarrow> ident \<Rightarrow> ident \<Rightarrow> category option" where
  "category_findFirst tx categoryId userId =
     (case categories tx categoryId of
        None \<Rightarrow> None
      | Some c \<Rightarrow>
          (case find (\<lambda>b. bm_id b = cat_budgetMonthId c) (budgetMonths tx) of
             None \<Rightarrow> None
           | Some b \<Rightarrow> if bm_userId b = userId then Some c else None))"

definition category_update_spent :: "db \<Rightarrow> ident option \<Rightarrow> rat \<Rightarrow> error + db" where
  "category_update_spent tx categoryId increment =
     (case categoryId of
        None \<Rightarrow> Inl RecordNotFound
      | Some cid \<Rightarrow>
          (case categories tx cid of
             None \<Rightarrow> Inl RecordNotFound
           | Some c \<Rightarrow>
               Inr (tx\<lparr>categories := (categories tx)(cid \<mapsto> c\<lparr>cat_spent := cat_spent c + increment\<rparr>)\<rparr>)))"

text \<open>The transaction with the given id whose account belongs to the user.\<close>

definition transaction_findFirst :: "db \<Rightarrow> ident \<Rightarrow> ident \<Rightarrow> transaction option" where
  "transaction_findFirst tx transactionId userId =
     find (\<lambda>t. tx_id t = transactionId \<and>
                (case accounts tx (tx_accountId t) of
                   None \<Rightarrow> False
                 | Some a \<Rightarrow> acc_userId a = userId))
          (transactions tx)"

definition transaction_create :: "db \<Rightarrow> transaction \<Rightarrow> error + db" where
  "transaction_create tx row =
     (if tx_id row \<in> set (map tx_id (transactions tx)) then Inl UniqueConstraint
      else Inr (tx\<lparr>transactions := transactions tx @ [row]\<rparr>))"

definition transaction_update :: "db \<Rightarrow> ident \<Rightarrow> transaction \<Rightarrow> error + db" where
  "transaction_update tx transactionId row =
     (if transactionId \<notin> set (map tx_id (transactions tx)) then Inl RecordNotFound
      else Inr (tx\<lparr>transactions :=
                  map (\<lambda>t. if tx_id t = transactionId then row else t) (transactions tx)\<rparr>))"

definition transaction_delete :: "db \<Rightarrow> ident \<Rightarrow> error + db" where
  "transaction_delete tx transactionId =
     (if transactionId \<notin> set (map tx_id (transactions tx)) then Inl RecordNotFound
      else Inr (tx\<lparr>transactions := filter (\<lambda>t. tx_id t \<noteq> transactionId) (transactions tx)\<rparr>))"

section \<open>The transactions handler\<close>

text \<open>Truthiness of an optional identifier in the host language: null, undefined and the
  empty string are falsy.\<close>

fun truthy :: "ident option \<Rightarrow> bool" where
  "truthy None = False"
| "truthy (Some cid) = (cid \<noteq> [])"

definition spendingAmount :: "ident option \<Rightarrow> rat \<Rightarrow> rat" where
  "spendingAmount categoryId amount = (if truthy categoryId \<and> amount > 0 then amount else 0)"

definition ensureCategoryAvailability ::
  "db \<Rightarrow> ident \<Rightarrow> ident option \<Rightarrow> rat \<Rightarrow> rat \<Rightarrow> error + unit" where
  "ensureCategoryAvailability tx userId categoryId spendAmount previousSpend =
     (case categoryId of
        None \<Rightarrow> Inr ()
      | Some cid \<Rightarrow>
          if cid = [] \<or> spendAmount \<le> 0 then Inr ()
          else
            (case category_findFirst tx cid userId of
               None \<Rightarrow> Inl CategoryNotFound
             | Some category \<Rightarrow>
                 (let available = cat_assigned category - (cat_spent category - previousSpend)
                  in if spendAmount > available then Inl Overextended else Inr ())))"

text \<open>The column default of \<open>cleared\<close> is declared in the database schema, which is not
  among the sources; it is taken to be false. No property below depends on it.\<close>

definition default_cleared :: bool where
  "default_cleared = False"

text \<open>The id of the new row is generated by the store; it is an argument here, and a
  generated id that is already in use violates the primary key. \<open>created_row\<close> is the
  row that \<open>data: { ...input, amount, date }\<close> describes.\<close>

definition created_row :: "ident \<Rightarrow> create_input \<Rightarrow> transaction" where
  "created_row newId input =
     \<lparr>tx_id = newId, tx_accountId = ci_accountId input,
      tx_categoryId = ci_categoryId input, tx_date = ci_date input,
      tx_payee = ci_payee input, tx_amount = ci_amount input,
      tx_memo = ci_memo input,
      tx_cleared = (case ci_cleared input of None \<Rightarrow> default_cleared | Some c \<Rightarrow> c)\<rparr>"

definition create :: "ident \<Rightarrow> ident \<Rightarrow> create_input \<Rightarrow> db \<Rightarrow> (error + response) \<times> db" where
  "create userId newId input s =
     (let spend = spendingAmount (ci_categoryId input) (ci_amount input) in
      prisma_transaction (\<lambda>tx.
        case account_findFirst tx (ci_accountId input) userId of
          None \<Rightarrow> Inr ((404, ErrorBody ''Account not found''), tx)
        | Some account \<Rightarrow>
            then_tx (ensureCategoryAvailability tx userId (ci_categoryId input) spend 0) (\<lambda>_.
            let created = created_row newId input in
            then_tx (transaction_create tx created) (\<lambda>tx1.
            then_tx (account_update_balance tx1 (ci_accountId input) (- ci_amount input)) (\<lambda>tx2.
            then_tx (if spend > 0 then category_update_spent tx2 (ci_categoryId input) spend
                     else Inr tx2) (\<lambda>tx3.
            Inr ((201, TransactionBody created), tx3)))))) s)"

text \<open>The merged next state of a patched transaction.\<close>

definition merge_next :: "transaction \<Rightarrow> patch_input \<Rightarrow> transaction" where
  "merge_next existing input =
     \<lparr>tx_id = tx_id existing,
      tx_accountId = (case pi_accountId input of None \<Rightarrow> tx_accountId existing | Some a \<Rightarrow> a),
      tx_categoryId = (case pi_categoryId input of None \<Rightarrow> tx_categoryId existing | Some c \<Rightarrow> c),
      tx_date = (case pi_date input of None \<Rightarrow> tx_date existing | Some d \<Rightarrow> d),
      tx_payee = (case pi_payee input of None \<Rightarrow> tx_payee existing | Some p \<Rightarrow> p),
      tx_amount = (case pi_amount input of None \<Rightarrow> tx_amount existing | Some a \<Rightarrow> a),
      tx_memo = (case pi_memo input of None \<Rightarrow> tx_memo existing | Some m \<Rightarrow> m),
      tx_cleared = (case pi_cleared input of None \<Rightarrow> tx_cleared existing | Some c \<Rightarrow> c)\<rparr>"

text \<open>The two category writes that end \<open>patch\<close>, reached from either branch of the
  account reconciliation: the old category gives the old spend back, the new one takes the
  new spend.\<close>

definition reconcile_spend ::
  "transaction \<Rightarrow> transaction \<Rightarrow> rat \<Rightarrow> rat \<Rightarrow> db \<Rightarrow> error + db" where
  "reconcile_spend existing next oldSpend newSpend tx =
     then_tx (if truthy (tx_categoryId existing) \<and> oldSpend > 0
              then category_update_spent tx (tx_categoryId existing) (- oldSpend)
              else Inr tx) (\<lambda>tx1.
     if truthy (tx_categoryId next) \<and> newSpend > 0
     then category_update_spent tx1 (tx_categoryId next) newSpend
     else Inr tx1)"

definition patch :: "ident \<Rightarrow> ident \<Rightarrow> patch_input \<Rightarrow> db \<Rightarrow> (error + response) \<times> db" where
  "patch userId transactionId input s =
     prisma_transaction (\<lambda>tx.
       case transaction_findFirst tx transactionId userId of
         None \<Rightarrow> Inr ((404, ErrorBody ''Transaction not found''), tx)
       | Some existing \<Rightarrow>
           (let next = merge_next existing input;
                oldSpend = spendingAmount (tx_categoryId existing) (tx_amount existing);
                newSpend = spendingAmount (tx_categoryId next) (tx_amount next) in
            then_tx (ensureCategoryAvailability tx userId (tx_categoryId next) newSpend
                       (if tx_categoryId next = tx_categoryId existing then oldSpend else 0)) (\<lambda>_.
            then_tx (transaction_update tx transactionId next) (\<lambda>tx1.
            if tx_accountId next = tx_accountId existing then
              then_tx (account_update_balance tx1 (tx_accountId existing)
                         (tx_amount existing - tx_amount next)) (\<lambda>tx2.
              then_tx (reconcile_spend existing next oldSpend newSpend tx2) (\<lambda>tx3.
              Inr ((200, TransactionBody next), tx3)))
            else
              (case account_findFirst tx1 (tx_accountId next) userId of
                 None \<Rightarrow> Inr ((404, ErrorBody ''New account not found''), tx1)
               | Some nextAccount \<Rightarrow>
                   then_tx (account_update_balance tx1 (tx_accountId existing)
                              (tx_amount existing)) (\<lambda>tx2.
                   then_tx (account_update_balance tx2 (tx_accountId next)
                              (- tx_amount next)) (\<lambda>tx3.
                   then_tx (reconcile_spend existing next oldSpend newSpend tx3) (\<lambda>tx4.
                   Inr ((200, TransactionBody next), tx4))))))))) s"

definition remove :: "ident \<Rightarrow> ident \<Rightarrow> db \<Rightarrow> (error + response) \<times> db" where
  "remove userId transactionId s =
     prisma_transaction (\<lambda>tx.
       case transaction_findFirst tx transactionId userId of
         None \<Rightarrow> Inr ((404, ErrorBody ''Transaction not found''), tx)
       | Some existing \<Rightarrow>
           (let oldSpend = spendingAmount (tx_categoryId existing) (tx_amount existing) in
            then_tx (account_update_balance tx (tx_accountId existing) (tx_amount existing)) (\<lambda>tx1.
            then_tx (if truthy (tx_categoryId existing) \<and> oldSpend > 0
                     then category_update_spent tx1 (tx_categoryId existing) (- oldSpend)
                     else Inr tx1) (\<lambda>tx2.
            then_tx (transaction_delete tx2 transactionId) (\<lambda>tx3.
            Inr ((200, SuccessBody), tx3)))))) s"

section \<open>The budget engine and the categories handler\<close>










section \<open>Sequences of ledger operations\<close>

datatype ledger_op =
    Create ident ident create_input
  | Patch ident ident patch_input
  | Remove ident ident

fun apply_op :: "ledger_op \<Rightarrow> db \<Rightarrow> (error + response) \<times> db" where
  "apply_op (Create userId newId input) s = create userId newId input s"
| "apply_op (Patch userId transactionId input) s = patch userId transactionId input s"
| "apply_op (Remove userId transactionId) s = remove userId transactionId s"

text \<open>Each request is served on the store the previous one left, whatever its outcome.\<close>

fun run :: "ledger_op list \<Rightarrow> db \<Rightarrow> db" where
  "run [] s = s"
| "run (x # xs) s = run xs (snd (apply_op x s))"

text \<open>The sum of the amounts of the transactions that reference an account, and the sum
  of the spend contributions of the transactions that reference a category.\<close>

definition ledger_sum :: "db \<Rightarrow> ident \<Rightarrow> rat" where
  "ledger_sum s accountId =
     sum_list (map tx_amount (filter (\<lambda>t. tx_accountId t = accountId) (transactions s)))"

definition spend_sum :: "db \<Rightarrow> ident \<Rightarrow> rat" where
  "spend_sum s categoryId =
     sum_list (map (\<lambda>t. spendingAmount (tx_categoryId t) (tx_amount t))
                   (filter (\<lambda>t. tx_categoryId t = Some categoryId) (transactions s)))"


definition spend_identity :: "db \<Rightarrow> bool" where
  "spend_identity s =
     (\<forall>c cat. categories s c = Some cat \<longrightarrow> cat_spent cat = spend_sum s c)"

text \<open>The primary key of the transactions table.\<close>

definition unique_ids :: "db \<Rightarrow> bool" where
  "unique_ids s = distinct (map tx_id (transactions s))"

text \<open>A patch that was answered "New account not found".\<close>

definition swap_rejected :: "ledger_op \<Rightarrow> db \<Rightarrow> bool" where
  "swap_rejected x s = (fst (apply_op x s) = Inr (404, ErrorBody ''New account not found''))"

fun no_rejected_swap :: "ledger_op list \<Rightarrow> db \<Rightarrow> bool" where
  "no_rejected_swap [] s = True"
| "no_rejected_swap (x # xs) s =
     (\<not> swap_rejected x s \<and> no_rejected_swap xs (snd (apply_op x s)))"

text \<open>What an account's balance and the transactions on it add up to.\<close>

definition account_total :: "db \<Rightarrow> ident \<Rightarrow> rat option" where
  "account_total s accountId =
     (case accounts s accountId of
        None \<Rightarrow> None
      | Some acc \<Rightarrow> Some (acc_balance acc + ledger_sum s accountId))"

text \<open>By how much a category's spent value differs from the spend contributions of the
  transactions that reference it.\<close>

definition category_gap :: "db \<Rightarrow> ident \<Rightarrow> rat option" where
  "category_gap s categoryId =
     (case categories s categoryId of
        None \<Rightarrow> None
      | Some cat \<Rightarrow> Some (cat_spent cat - spend_sum s categoryId))"

section \<open>The availability rule as the specification words it\<close>



section \<open>Example stores\<close>

text \<open>
  The store of the specification's second scenario: user \<open>u1\<close> has an account with balance
  100 and a category with 50 assigned and nothing spent; user \<open>u2\<close> has an account of their
  own.
\<close>

definition scenario_db :: db where
  "scenario_db =
     \<lparr>accounts = [''a1'' \<mapsto> \<lparr>acc_userId = ''u1'', acc_balance = 100\<rparr>,
                  ''b1'' \<mapsto> \<lparr>acc_userId = ''u2'', acc_balance = 50\<rparr>],
      budgetMonths = [\<lparr>bm_id = ''m1'', bm_userId = ''u1'', bm_month = 0,
                        bm_availableToBudget = 100\<rparr>],
      categories = [''c1'' \<mapsto> \<lparr>cat_budgetMonthId = ''m1'', cat_assigned = 50, cat_spent = 0\<rparr>],
      transactions = []\<rparr>"

definition groceries :: create_input where
  "groceries =
     \<lparr>ci_accountId = ''a1'', ci_categoryId = Some ''c1'', ci_date = 0, ci_payee = None,
      ci_amount = 20, ci_memo = None, ci_cleared = None\<rparr>"

text \<open>The same store after \<open>u1\<close> has recorded the groceries as transaction \<open>t1\<close>.\<close>

definition ledger_db :: db where
  "ledger_db =
     \<lparr>accounts = [''a1'' \<mapsto> \<lparr>acc_userId = ''u1'', acc_balance = 80\<rparr>,
                  ''b1'' \<mapsto> \<lparr>acc_userId = ''u2'', acc_balance = 50\<rparr>],
      budgetMonths = [\<lparr>bm_id = ''m1'', bm_userId = ''u1'', bm_month = 0,
                        bm_availableToBudget = 100\<rparr>],
      categories = [''c1'' \<mapsto> \<lparr>cat_budgetMonthId = ''m1'', cat_assigned = 50, cat_spent = 20\<rparr>],
      transactions = [\<lparr>tx_id = ''t1'', tx_accountId = ''a1'', tx_categoryId = Some ''c1'',
                        tx_date = 0, tx_payee = None, tx_amount = 20, tx_memo = None,
                        tx_cleared = False\<rparr>]\<rparr>"

text \<open>A patch payload that only names another account, and one that also changes the
  amount.\<close>

definition to_account_b1 :: patch_input where
  "to_account_b1 =
     \<lparr>pi_accountId = Some ''b1'', pi_categoryId = None, pi_date = None, pi_payee = None,
      pi_amount = None, pi_memo = None, pi_cleared = None\<rparr>"

definition to_account_b1_amount_30 :: patch_input where
  "to_account_b1_amount_30 =
     \<lparr>pi_accountId = Some ''b1'', pi_categoryId = None, pi_date = None, pi_payee = None,
      pi_amount = Some 30, pi_memo = None, pi_cleared = None\<rparr>"

text \<open>A patch payload that only gives a new amount, and one that only gives a null
  category.\<close>

definition set_amount :: "rat \<Rightarrow> patch_input" where
  "set_amount x =
     \<lparr>pi_accountId = None, pi_categoryId = None, pi_date = None, pi_payee = None,
      pi_amount = Some x, pi_memo = None, pi_cleared = None\<rparr>"

definition detach :: patch_input where
  "detach =
     \<lparr>pi_accountId = None, pi_categoryId = Some None, pi_date = None, pi_payee = None,
      pi_amount = None, pi_memo = None, pi_cleared = None\<rparr>"

text \<open>The first two requests of the second scenario: record the groceries, then amend the
  amount to 30.\<close>

definition scenario_ops :: "ledger_op list" where
  "scenario_ops = [Create ''u1'' ''t1'' groceries, Patch ''u1'' ''t1'' (set_amount 30)]"

text \<open>A store in which the category is overspent (20 assigned, 25 spent), and a categorized
  inflow of 10.\<close>

definition overspent_db :: db where
  "overspent_db =
     \<lparr>accounts = [''a1'' \<mapsto> \<lparr>acc_userId = ''u1'', acc_balance = 100\<rparr>],
      budgetMonths = [\<lparr>bm_id = ''m1'', bm_userId = ''u1'', bm_month = 0,
                        bm_availableToBudget = 100\<rparr>],
      categories = [''c1'' \<mapsto> \<lparr>cat_budgetMonthId = ''m1'', cat_assigned = 20, cat_spent = 25\<rparr>],
      transactions = []\<rparr>"

definition refund :: create_input where
  "refund =
     \<lparr>ci_accountId = ''a1'', ci_categoryId = Some ''c1'', ci_date = 0, ci_payee = None,
      ci_amount = - 10, ci_memo = None, ci_cleared = None\<rparr>"

text \<open>A store with one empty account and no transactions: both identities of the
  specification hold in it.\<close>

definition fresh_db :: db where
  "fresh_db =
     \<lparr>accounts = [''a1'' \<mapsto> \<lparr>acc_userId = ''u1'', acc_balance = 0\<rparr>],
      budgetMonths = [\<lparr>bm_id = ''m1'', bm_userId = ''u1'', bm_month = 0,
                        bm_availableToBudget = 100\<rparr>],
      categories = [''c1'' \<mapsto> \<lparr>cat_budgetMonthId = ''m1'', cat_assigned = 50, cat_spent = 0\<rparr>],
      transactions = []\<rparr>"

text \<open>A date parser that knows one month, and the store after 60 of the 100 available
  have been assigned to the category.\<close>

definition january :: "string \<Rightarrow> int option" where
  "january str = (if str = ''2024-01-01T00:00:00.000Z'' then Some 0 else None)"

definition assigned_db :: db where
  "assigned_db =
     \<lparr>accounts = [''a1'' \<mapsto> \<lparr>acc_userId = ''u1'', acc_balance = 100\<rparr>,
                  ''b1'' \<mapsto> \<lparr>acc_userId = ''u2'', acc_balance = 50\<rparr>],
      budgetMonths = [\<lparr>bm_id = ''m1'', bm_userId = ''u1'', bm_month = 0,
                        bm_availableToBudget = 40\<rparr>],
      categories = [''c1'' \<mapsto> \<lparr>cat_budgetMonthId = ''m1'', cat_assigned = 110, cat_spent = 0\<rparr>],
      transactions = []\<rparr>"

section \<open>Auxiliary facts about the store\<close>

lemma then_tx_Inl [simp]: "then_tx (Inl e) f = Inl e"
  by (simp add: then_tx_def)

lemma then_tx_Inr [simp]: "then_tx (Inr x) f = f x"
  by (simp add: then_tx_def)

lemma then_tx_eq_Inr: "then_tx m f = Inr y \<longleftrightarrow> (\<exists>x. m = Inr x \<and> f x = Inr y)"
  by (cases m) auto


lemma prisma_transaction_Inr:
  "prisma_transaction work s = (Inr r, s') \<longleftrightarrow> work s = Inr (r, s')"
  by (auto simp: prisma_transaction_def split: sum.splits)

lemma prisma_transaction_Inl:
  "prisma_transaction work s = (Inl e, s') \<longleftrightarrow> work s = Inl e \<and> s' = s"
  by (auto simp: prisma_transaction_def split: sum.splits)

lemma account_update_balance_Inr:
  "account_update_balance tx a d = Inr tx' \<longleftrightarrow>
     (\<exists>acc. accounts tx a = Some acc \<and>
        tx' = tx\<lparr>accounts := (accounts tx)(a \<mapsto> acc\<lparr>acc_balance := acc_balance acc + d\<rparr>)\<rparr>)"
  by (auto simp: account_update_balance_def split: option.splits)

lemma category_update_spent_Inr:
  "category_update_spent tx c d = Inr tx' \<longleftrightarrow>
     (\<exists>cid cat. c = Some cid \<and> categories tx cid = Some cat \<and>
        tx' = tx\<lparr>categories := (categories tx)(cid \<mapsto> cat\<lparr>cat_spent := cat_spent cat + d\<rparr>)\<rparr>)"
  by (auto simp: category_update_spent_def split: option.splits)

lemma transaction_create_Inr:
  "transaction_create tx row = Inr tx' \<longleftrightarrow>
     tx_id row \<notin> tx_id ` set (transactions tx) \<and>
     tx' = tx\<lparr>transactions := transactions tx @ [row]\<rparr>"
  by (auto simp: transaction_create_def)

lemma transaction_delete_Inr:
  "transaction_delete tx tid = Inr tx' \<longleftrightarrow>
     tid \<in> tx_id ` set (transactions tx) \<and>
     tx' = tx\<lparr>transactions := filter (\<lambda>t. tx_id t \<noteq> tid) (transactions tx)\<rparr>"
  by (auto simp: transaction_delete_def)

lemma transaction_update_Inr:
  "transaction_update tx tid row = Inr tx' \<longleftrightarrow>
     tid \<in> tx_id ` set (transactions tx) \<and>
     tx' = tx\<lparr>transactions := map (\<lambda>t. if tx_id t = tid then row else t) (transactions tx)\<rparr>"
  by (auto simp: transaction_update_def)

lemma spendingAmount_pos: "0 < spendingAmount c a \<longleftrightarrow> truthy c \<and> 0 < a"
  by (simp add: spendingAmount_def)

lemmas store_defs = prisma_transaction_def account_findFirst_def account_update_balance_def
  category_findFirst_def category_update_spent_def transaction_findFirst_def
  transaction_create_def transaction_update_def transaction_delete_def

lemmas handler_defs = create_def created_row_def patch_def remove_def
  ensureCategoryAvailability_def spendingAmount_def reconcile_spend_def merge_next_def
  default_cleared_def Let_def

lemmas example_defs = scenario_db_def groceries_def ledger_db_def to_account_b1_def
  to_account_b1_amount_30_def overspent_db_def refund_def fresh_db_def january_def
  assigned_db_def set_amount_def detach_def scenario_ops_def

text \<open>What a successful \<open>create\<close> has done to the store.\<close>

lemma create_success:
  assumes "create userId newId input s = (Inr (201, b), s1)"
  shows "\<exists>account. accounts s (ci_accountId input) = Some account \<and> acc_userId account = userId \<and>
           newId \<notin> tx_id ` set (transactions s) \<and>
           b = TransactionBody (created_row newId input) \<and>
           transactions s1 = transactions s @ [created_row newId input] \<and>
           accounts s1 = (accounts s)(ci_accountId input \<mapsto>
                            account\<lparr>acc_balance := acc_balance account - ci_amount input\<rparr>) \<and>
           budgetMonths s1 = budgetMonths s \<and>
           (if 0 < spendingAmount (ci_categoryId input) (ci_amount input)
            then \<exists>cid cat. ci_categoryId input = Some cid \<and> categories s cid = Some cat \<and>
                   categories s1 = (categories s)(cid \<mapsto>
                      cat\<lparr>cat_spent := cat_spent cat + ci_amount input\<rparr>)
            else categories s1 = categories s)"
  using assms
  by (auto simp: create_def prisma_transaction_Inr Let_def then_tx_eq_Inr account_findFirst_def
      account_update_balance_Inr category_update_spent_Inr transaction_create_Inr created_row_def
      spendingAmount_def
      split: option.splits if_splits)

section \<open>Spend contribution\<close>

text \<open>
  Claim C9. The spend contribution of a transaction is its amount when a category is present
  and the amount is positive, and zero otherwise. A category is present when the identifier is
  truthy in the host language: neither null, undefined nor the empty string. Hence creating
  or removing an uncategorized transaction, or one with a non-positive amount, changes no
  category row.
\<close>

theorem spendingAmount_contribution:
  "(truthy categoryId \<and> 0 < amount \<longrightarrow> spendingAmount categoryId amount = amount) \<and>
   (\<not> (truthy categoryId \<and> 0 < amount) \<longrightarrow> spendingAmount categoryId amount = 0) \<and>
   (ci_categoryId input = None \<or> ci_amount input \<le> 0 \<longrightarrow>
      categories (snd (create userId newId input s)) = categories s) \<and>
   (transaction_findFirst s transactionId userId = Some existing \<and>
    (tx_categoryId existing = None \<or> tx_amount existing \<le> 0) \<longrightarrow>
      categories (snd (remove userId transactionId s)) = categories s)"
proof (intro conjI impI)
  assume "ci_categoryId input = None \<or> ci_amount input \<le> 0"
  then have "spendingAmount (ci_categoryId input) (ci_amount input) = 0"
    by (auto simp: spendingAmount_def)
  then show "categories (snd (create userId newId input s)) = categories s"
    by (auto simp: create_def prisma_transaction_def Let_def then_tx_eq_Inr
        account_update_balance_Inr transaction_create_Inr
        split: option.splits sum.splits)
next
  assume "transaction_findFirst s transactionId userId = Some existing \<and>
    (tx_categoryId existing = None \<or> tx_amount existing \<le> 0)"
  then have f: "transaction_findFirst s transactionId userId = Some existing"
    and z: "spendingAmount (tx_categoryId existing) (tx_amount existing) = 0"
    by (auto simp: spendingAmount_def)
  show "categories (snd (remove userId transactionId s)) = categories s"
    using f z
    by (auto simp: remove_def prisma_transaction_def Let_def then_tx_eq_Inr
        account_update_balance_Inr transaction_delete_Inr
        split: option.splits sum.splits)
qed (simp_all add: spendingAmount_def)

theorem spendingAmount_contribution_witness:
  "spendingAmount (Some ''c1'') 20 = 20 \<and>
   spendingAmount None 20 = 0 \<and>
   spendingAmount (Some ''c1'') (- 10) = 0 \<and>
   categories (snd (create ''u1'' ''t1'' refund overspent_db)) = categories overspent_db \<and>
   transaction_findFirst (snd (create ''u1'' ''t1'' refund overspent_db)) ''t1'' ''u1''
     = Some (created_row ''t1'' refund) \<and>
   categories (snd (remove ''u1'' ''t1'' (snd (create ''u1'' ''t1'' refund overspent_db))))
     = categories (snd (create ''u1'' ''t1'' refund overspent_db))"
proof -
  have f: "transaction_findFirst (snd (create ''u1'' ''t1'' refund overspent_db)) ''t1'' ''u1''
     = Some (created_row ''t1'' refund)"
    by (simp add: example_defs handler_defs store_defs)
  have a: "tx_amount (created_row ''t1'' refund) \<le> 0" "ci_amount refund \<le> 0"
    by (simp_all add: created_row_def refund_def)
  show ?thesis
    using f a
      spendingAmount_contribution [where categoryId = "Some ''c1''" and amount = 20
        and input = refund and userId = "''u1''" and newId = "''t1''" and s = overspent_db]
      spendingAmount_contribution [where categoryId = None and amount = 20
        and s = "snd (create ''u1'' ''t1'' refund overspent_db)" and transactionId = "''t1''"
        and userId = "''u1''" and existing = "created_row ''t1'' refund"]
      spendingAmount_contribution [where categoryId = "Some ''c1''" and amount = "- 10"]
    by simp
qed

section \<open>Removing a transaction that is not there\<close>

text \<open>
  Claim C8. When the transaction id names no transaction on an account of the caller,
  \<open>remove\<close> answers 404 "Transaction not found" and leaves the store as it was. In
  particular a second \<open>remove\<close> after a successful one is answered so: nothing is
  credited twice.
\<close>

theorem remove_absent_not_found:
  "(transaction_findFirst s transactionId userId = None \<longrightarrow>
      remove userId transactionId s = (Inr (404, ErrorBody ''Transaction not found''), s)) \<and>
   (fst (remove userId transactionId s) = Inr (200, SuccessBody) \<longrightarrow>
      remove userId transactionId (snd (remove userId transactionId s)) =
        (Inr (404, ErrorBody ''Transaction not found''), snd (remove userId transactionId s)))"
proof (intro conjI impI)
  assume "transaction_findFirst s transactionId userId = None"
  then show "remove userId transactionId s = (Inr (404, ErrorBody ''Transaction not found''), s)"
    by (simp add: remove_def prisma_transaction_def)
next
  let ?s' = "snd (remove userId transactionId s)"
  assume ok: "fst (remove userId transactionId s) = Inr (200, SuccessBody)"
  have "transactionId \<notin> tx_id ` set (transactions ?s')"
    using ok
    by (auto simp: remove_def prisma_transaction_def Let_def then_tx_eq_Inr
        account_update_balance_def category_update_spent_def transaction_delete_def
        split: option.splits sum.splits if_splits prod.splits)
  then have "transaction_findFirst ?s' transactionId userId = None"
    by (auto simp: transaction_findFirst_def find_None_iff)
  then show "remove userId transactionId ?s' = (Inr (404, ErrorBody ''Transaction not found''), ?s')"
    by (simp add: remove_def prisma_transaction_def)
qed

theorem remove_absent_not_found_witness:
  "transaction_findFirst scenario_db ''t1'' ''u1'' = None \<and>
   remove ''u1'' ''t1'' scenario_db = (Inr (404, ErrorBody ''Transaction not found''), scenario_db) \<and>
   fst (remove ''u1'' ''t1'' ledger_db) = Inr (200, SuccessBody) \<and>
   remove ''u1'' ''t1'' (snd (remove ''u1'' ''t1'' ledger_db)) =
     (Inr (404, ErrorBody ''Transaction not found''), snd (remove ''u1'' ''t1'' ledger_db))"
proof -
  have a: "transaction_findFirst scenario_db ''t1'' ''u1'' = None"
    by (simp add: example_defs store_defs)
  have b: "fst (remove ''u1'' ''t1'' ledger_db) = Inr (200, SuccessBody)"
    by (simp add: example_defs handler_defs store_defs)
  show ?thesis
    using a b
      remove_absent_not_found [where s = scenario_db and transactionId = "''t1''"
        and userId = "''u1''"]
      remove_absent_not_found [where s = ledger_db and transactionId = "''t1''"
        and userId = "''u1''"]
    by simp
qed

section \<open>Rejected spending\<close>




section \<open>A rejected account swap\<close>

text \<open>
  Claim C1 does not hold of the code. Transaction \<open>t1\<close> of user \<open>u1\<close> is on account
  \<open>a1\<close>; account \<open>b1\<close> belongs to \<open>u2\<close>. Patching \<open>t1\<close> to account \<open>b1\<close> is answered
  404 "New account not found", but the row has been rewritten before the new account is
  looked up, and the unit of work returns normally, so the write is committed: the
  transaction now references \<open>b1\<close>. No balance has changed.
\<close>

theorem patch_rejected_swap_rewrites_row:
  "map tx_accountId (transactions ledger_db) = [''a1''] \<and>
   account_findFirst ledger_db ''b1'' ''u1'' = None \<and>
   fst (patch ''u1'' ''t1'' to_account_b1 ledger_db) =
     Inr (404, ErrorBody ''New account not found'') \<and>
   map tx_accountId (transactions (snd (patch ''u1'' ''t1'' to_account_b1 ledger_db))) = [''b1''] \<and>
   accounts (snd (patch ''u1'' ''t1'' to_account_b1 ledger_db)) = accounts ledger_db \<and>
   categories (snd (patch ''u1'' ''t1'' to_account_b1 ledger_db)) = categories ledger_db"
  by (simp add: example_defs handler_defs store_defs)

section \<open>The spend identity\<close>

text \<open>
  Claim C3 does not hold of the code, by the same defect as claim C1. In \<open>ledger_db\<close>
  category \<open>c1\<close> has spent 20, the contribution of its one transaction. A patch of that
  transaction to the foreign account \<open>b1\<close> with amount 30 is answered 404, yet the row now
  carries amount 30 while the category's spent value is still 20.
\<close>

theorem patch_rejected_swap_breaks_spend_identity:
  "map_option cat_spent (categories ledger_db ''c1'') = Some (spend_sum ledger_db ''c1'') \<and>
   fst (patch ''u1'' ''t1'' to_account_b1_amount_30 ledger_db) =
     Inr (404, ErrorBody ''New account not found'') \<and>
   map_option cat_spent
     (categories (snd (patch ''u1'' ''t1'' to_account_b1_amount_30 ledger_db)) ''c1'') = Some 20 \<and>
   spend_sum (snd (patch ''u1'' ''t1'' to_account_b1_amount_30 ledger_db)) ''c1'' = 30"
  by (simp add: example_defs handler_defs store_defs spend_sum_def)

section \<open>Create, then remove\<close>

lemma findFirst_after_create:
  assumes "create userId newId input s = (Inr (201, b), s1)"
    and "transaction_findFirst s1 newId userId' = Some existing"
  shows "existing = created_row newId input"
proof -
  from create_success [OF assms(1)]
  have fresh: "newId \<notin> tx_id ` set (transactions s)"
    and txs: "transactions s1 = transactions s @ [created_row newId input]"
    by auto
  from assms(2) have "existing \<in> set (transactions s1)" and "tx_id existing = newId"
    by (auto simp: transaction_findFirst_def find_Some_iff)
  with fresh txs show ?thesis
    by auto
qed

text \<open>
  Claim C7. A successful \<open>create\<close> followed at once by a successful \<open>remove\<close> of the
  created transaction leaves the store exactly as it was before the \<open>create\<close>: every
  account balance and every category's spent value, those of the referenced account and
  category among them, are restored.
\<close>

theorem create_remove_roundtrip:
  assumes c: "create userId newId input s = (Inr (201, b), s1)"
    and r: "remove userId' newId s1 = (Inr (200, b'), s2)"
  shows "s2 = s \<and>
         map_option acc_balance (accounts s2 (ci_accountId input)) =
           map_option acc_balance (accounts s (ci_accountId input)) \<and>
         (case ci_categoryId input of
            None \<Rightarrow> True
          | Some cid \<Rightarrow> map_option cat_spent (categories s2 cid) =
                        map_option cat_spent (categories s cid))"
proof -
  from create_success [OF c] obtain account where
    acc: "accounts s (ci_accountId input) = Some account"
    and fresh: "newId \<notin> tx_id ` set (transactions s)"
    and txs: "transactions s1 = transactions s @ [created_row newId input]"
    and accs: "accounts s1 = (accounts s)(ci_accountId input \<mapsto>
                 account\<lparr>acc_balance := acc_balance account - ci_amount input\<rparr>)"
    and bms: "budgetMonths s1 = budgetMonths s"
    and cats: "if 0 < spendingAmount (ci_categoryId input) (ci_amount input)
            then \<exists>cid cat. ci_categoryId input = Some cid \<and> categories s cid = Some cat \<and>
                   categories s1 = (categories s)(cid \<mapsto>
                      cat\<lparr>cat_spent := cat_spent cat + ci_amount input\<rparr>)
            else categories s1 = categories s"
    by blast
  from r obtain existing where f: "transaction_findFirst s1 newId userId' = Some existing"
    by (auto simp: remove_def prisma_transaction_Inr split: option.splits)
  have ex: "existing = created_row newId input"
    using findFirst_after_create [OF c f] .
  have del: "filter (\<lambda>t. tx_id t \<noteq> newId) (transactions s1) = transactions s"
    using fresh txs by (auto simp: created_row_def filter_id_conv)
  have "accounts s2 = accounts s \<and> categories s2 = categories s \<and>
        transactions s2 = transactions s \<and> budgetMonths s2 = budgetMonths s"
  proof (cases "0 < spendingAmount (ci_categoryId input) (ci_amount input)")
    case True
    with cats obtain cid cat where cid: "ci_categoryId input = Some cid"
      and cat: "categories s cid = Some cat"
      and cats1: "categories s1 = (categories s)(cid \<mapsto>
                      cat\<lparr>cat_spent := cat_spent cat + ci_amount input\<rparr>)"
      by auto
    from True cid have pos: "cid \<noteq> []" "0 < ci_amount input"
      by (auto simp: spendingAmount_def split: if_splits)
    show ?thesis
      using r f ex del acc accs bms cid cat cats1 pos
      by (auto simp: remove_def prisma_transaction_Inr Let_def then_tx_eq_Inr
          account_update_balance_Inr category_update_spent_Inr transaction_delete_Inr
          created_row_def spendingAmount_def)
  next
    case False
    with cats have cats1: "categories s1 = categories s"
      by simp
    from False have np: "\<not> (truthy (ci_categoryId input) \<and> 0 < ci_amount input)"
      by (auto simp: spendingAmount_def split: if_splits)
    show ?thesis
      using r f ex del acc accs bms cats1 np
      by (auto simp: remove_def prisma_transaction_Inr Let_def then_tx_eq_Inr
          account_update_balance_Inr category_update_spent_Inr transaction_delete_Inr
          created_row_def spendingAmount_def)
  qed
  then have "s2 = s"
    by (simp add: db.equality)
  then show ?thesis
    by (simp split: option.splits)
qed

theorem create_remove_roundtrip_witness:
  "remove ''u1'' ''t1'' (snd (create ''u1'' ''t1'' groceries scenario_db)) =
     (Inr (200, SuccessBody), scenario_db)"
proof -
  have c: "create ''u1'' ''t1'' groceries scenario_db =
      (Inr (201, TransactionBody (created_row ''t1'' groceries)),
       snd (create ''u1'' ''t1'' groceries scenario_db))"
    by (simp add: example_defs handler_defs store_defs)
  have r: "remove ''u1'' ''t1'' (snd (create ''u1'' ''t1'' groceries scenario_db)) =
      (Inr (200, SuccessBody),
       snd (remove ''u1'' ''t1'' (snd (create ''u1'' ''t1'' groceries scenario_db))))"
    by (simp add: example_defs handler_defs store_defs)
  from create_remove_roundtrip [OF c r]
  have "snd (remove ''u1'' ''t1'' (snd (create ''u1'' ''t1'' groceries scenario_db))) = scenario_db"
    by simp
  with r show ?thesis
    by simp
qed

section \<open>Assigning money\<close>





section \<open>When spending is rejected\<close>







section \<open>Detaching a transaction from its category\<close>

text \<open>The reconciliation of category spend writes to the categories table only.\<close>

lemma reconcile_spend_frame:
  assumes "reconcile_spend existing next oldSpend newSpend tx = Inr tx'"
  shows "accounts tx' = accounts tx \<and> transactions tx' = transactions tx \<and>
         budgetMonths tx' = budgetMonths tx"
  using assms
  by (auto simp: reconcile_spend_def then_tx_eq_Inr category_update_spent_Inr
      split: if_splits)

text \<open>What a successful \<open>patch\<close> has done: the row is the merged next state, and the
  categories are those the reconciliation leaves.\<close>

lemma patch_success:
  assumes "transaction_findFirst s transactionId userId = Some existing"
    and "patch userId transactionId input s = (Inr (200, b), s')"
  shows "b = TransactionBody (merge_next existing input) \<and>
         (\<exists>tx. categories tx = categories s \<and>
            transactions tx =
              map (\<lambda>t. if tx_id t = transactionId then merge_next existing input else t)
                  (transactions s) \<and>
            reconcile_spend existing (merge_next existing input)
             (spendingAmount (tx_categoryId existing) (tx_amount existing))
             (spendingAmount (tx_categoryId (merge_next existing input))
                (tx_amount (merge_next existing input))) tx = Inr s')"
proof -
  let ?next = "merge_next existing input"
  let ?old = "spendingAmount (tx_categoryId existing) (tx_amount existing)"
  let ?new = "spendingAmount (tx_categoryId ?next) (tx_amount ?next)"
  let ?rows = "map (\<lambda>t. if tx_id t = transactionId then ?next else t) (transactions s)"
  from assms have "b = TransactionBody ?next \<and>
      (\<exists>A. reconcile_spend existing ?next ?old ?new
             (s\<lparr>transactions := ?rows, accounts := A\<rparr>) = Inr s')"
    by (auto simp: patch_def prisma_transaction_Inr Let_def then_tx_eq_Inr
        account_update_balance_Inr transaction_update_Inr
        split: option.splits if_splits)
  then obtain A where b: "b = TransactionBody ?next"
    and r: "reconcile_spend existing ?next ?old ?new
             (s\<lparr>transactions := ?rows, accounts := A\<rparr>) = Inr s'"
    by blast
  have "categories (s\<lparr>transactions := ?rows, accounts := A\<rparr>) = categories s"
    and "transactions (s\<lparr>transactions := ?rows, accounts := A\<rparr>) = ?rows"
    by simp_all
  with b r show ?thesis
    by blast
qed



section \<open>Sums over the transactions table\<close>

lemma map_replace_absent:
  assumes "tid \<notin> tx_id ` set xs"
  shows "map (\<lambda>t. if tx_id t = tid then n else t) xs = xs"
  using assms by (induction xs) auto

lemma map_replace_ids:
  assumes "tx_id n = tid"
  shows "map tx_id (map (\<lambda>t. if tx_id t = tid then n else t) xs) = map tx_id xs"
  using assms by (induction xs) auto

lemma filter_delete_absent:
  assumes "tid \<notin> tx_id ` set xs"
  shows "filter (\<lambda>t. tx_id t \<noteq> tid) xs = xs"
  using assms by (induction xs) auto

lemma sum_replace_row:
  fixes g :: "transaction \<Rightarrow> rat"
  assumes "distinct (map tx_id xs)" and "e \<in> set xs"
  shows "sum_list (map g (map (\<lambda>t. if tx_id t = tx_id e then n else t) xs)) =
         sum_list (map g xs) - g e + g n"
  using assms
proof (induction xs)
  case Nil
  then show ?case by simp
next
  case (Cons x xs)
  show ?case
  proof (cases "x = e")
    case True
    with Cons.prems have "tx_id e \<notin> tx_id ` set xs"
      by auto
    then have "map (\<lambda>t. if tx_id t = tx_id e then n else t) xs = xs"
      by (rule map_replace_absent)
    with True show ?thesis
      by simp
  next
    case False
    with Cons.prems have "e \<in> set xs" and "tx_id x \<noteq> tx_id e" and "distinct (map tx_id xs)"
      by auto
    with Cons.IH show ?thesis
      by simp
  qed
qed

lemma sum_delete_row:
  fixes g :: "transaction \<Rightarrow> rat"
  assumes "distinct (map tx_id xs)" and "e \<in> set xs"
  shows "sum_list (map g (filter (\<lambda>t. tx_id t \<noteq> tx_id e) xs)) = sum_list (map g xs) - g e"
  using assms
proof (induction xs)
  case Nil
  then show ?case by simp
next
  case (Cons x xs)
  show ?case
  proof (cases "x = e")
    case True
    with Cons.prems have "tx_id e \<notin> tx_id ` set xs"
      by auto
    then have "filter (\<lambda>t. tx_id t \<noteq> tx_id e) xs = xs"
      by (rule filter_delete_absent)
    with True show ?thesis
      by simp
  next
    case False
    with Cons.prems have "e \<in> set xs" and "tx_id x \<noteq> tx_id e" and "distinct (map tx_id xs)"
      by auto
    with Cons.IH show ?thesis
      by simp
  qed
qed

lemma ledger_sum_alt:
  "ledger_sum s a =
     sum_list (map (\<lambda>t. if tx_accountId t = a then tx_amount t else 0) (transactions s))"
  by (simp add: ledger_sum_def sum_list_map_filter')

lemma findFirst_row:
  assumes "transaction_findFirst s transactionId userId = Some existing"
  shows "existing \<in> set (transactions s) \<and> tx_id existing = transactionId"
  using assms by (auto simp: transaction_findFirst_def find_Some_iff)

section \<open>What each operation does to the store\<close>

lemma create_outcome:
  "snd (create userId newId input s) = s \<or>
   (\<exists>b. create userId newId input s = (Inr (201, b), snd (create userId newId input s)))"
  by (auto simp: create_def prisma_transaction_def Let_def then_tx_eq_Inr
      split: option.splits sum.splits)

lemma remove_outcome:
  "snd (remove userId transactionId s) = s \<or>
   (\<exists>b. remove userId transactionId s = (Inr (200, b), snd (remove userId transactionId s)))"
  by (auto simp: remove_def prisma_transaction_def Let_def then_tx_eq_Inr
      split: option.splits sum.splits)

lemma patch_outcome:
  "snd (patch userId transactionId input s) = s \<or>
   fst (patch userId transactionId input s) = Inr (404, ErrorBody ''New account not found'') \<or>
   (\<exists>b. patch userId transactionId input s =
          (Inr (200, b), snd (patch userId transactionId input s)))"
  by (auto simp: patch_def prisma_transaction_def Let_def then_tx_eq_Inr
      split: option.splits sum.splits if_splits)

lemma remove_success:
  assumes "remove userId transactionId s = (Inr (200, b), s')"
  shows "\<exists>existing acc.
           transaction_findFirst s transactionId userId = Some existing \<and>
           accounts s (tx_accountId existing) = Some acc \<and>
           accounts s' = (accounts s)(tx_accountId existing \<mapsto>
                            acc\<lparr>acc_balance := acc_balance acc + tx_amount existing\<rparr>) \<and>
           transactions s' = filter (\<lambda>t. tx_id t \<noteq> transactionId) (transactions s) \<and>
           budgetMonths s' = budgetMonths s \<and>
           (if 0 < spendingAmount (tx_categoryId existing) (tx_amount existing)
            then \<exists>cid cat. tx_categoryId existing = Some cid \<and> categories s cid = Some cat \<and>
                   categories s' = (categories s)(cid \<mapsto>
                      cat\<lparr>cat_spent := cat_spent cat - tx_amount existing\<rparr>)
            else categories s' = categories s)"
  using assms
  by (auto simp: remove_def prisma_transaction_Inr Let_def then_tx_eq_Inr
      account_update_balance_Inr category_update_spent_Inr transaction_delete_Inr
      spendingAmount_def
      split: option.splits if_splits)

lemma patch_success_accounts:
  assumes "transaction_findFirst s transactionId userId = Some existing"
    and "patch userId transactionId input s = (Inr (200, b), s')"
  shows "\<exists>acc. accounts s (tx_accountId existing) = Some acc \<and>
           (if tx_accountId (merge_next existing input) = tx_accountId existing
            then accounts s' = (accounts s)(tx_accountId existing \<mapsto>
                   acc\<lparr>acc_balance := acc_balance acc +
                          (tx_amount existing - tx_amount (merge_next existing input))\<rparr>)
            else \<exists>acc2. accounts s (tx_accountId (merge_next existing input)) = Some acc2 \<and>
                   accounts s' = (accounts s)
                     (tx_accountId existing \<mapsto>
                        acc\<lparr>acc_balance := acc_balance acc + tx_amount existing\<rparr>,
                      tx_accountId (merge_next existing input) \<mapsto>
                        acc2\<lparr>acc_balance := acc_balance acc2 -
                                tx_amount (merge_next existing input)\<rparr>))"
  using assms
  by (auto simp: patch_def prisma_transaction_Inr Let_def then_tx_eq_Inr
      account_update_balance_Inr transaction_update_Inr
      dest!: reconcile_spend_frame
      split: option.splits if_splits)


section \<open>The balance identity\<close>

lemma create_account_total:
  assumes "unique_ids s"
  shows "account_total (snd (create userId newId input s)) a = account_total s a \<and>
         unique_ids (snd (create userId newId input s))"
proof -
  let ?s' = "snd (create userId newId input s)"
  from create_outcome [of userId newId input s] show ?thesis
  proof
    assume "?s' = s"
    with assms show ?thesis by simp
  next
    assume "\<exists>b. create userId newId input s = (Inr (201, b), ?s')"
    then obtain b where "create userId newId input s = (Inr (201, b), ?s')" ..
    from create_success [OF this] obtain account where
      acc: "accounts s (ci_accountId input) = Some account"
      and fresh: "newId \<notin> tx_id ` set (transactions s)"
      and txs: "transactions ?s' = transactions s @ [created_row newId input]"
      and accs: "accounts ?s' = (accounts s)(ci_accountId input \<mapsto>
                   account\<lparr>acc_balance := acc_balance account - ci_amount input\<rparr>)"
      by blast
    have "ledger_sum ?s' a =
        ledger_sum s a + (if ci_accountId input = a then ci_amount input else 0)"
      unfolding ledger_sum_alt txs by (simp add: created_row_def)
    then have "account_total ?s' a = account_total s a"
      using acc accs by (auto simp: account_total_def split: option.splits)
    moreover have "unique_ids ?s'"
      using assms fresh txs by (simp add: unique_ids_def created_row_def)
    ultimately show ?thesis ..
  qed
qed

lemma remove_account_total:
  assumes "unique_ids s"
  shows "account_total (snd (remove userId transactionId s)) a = account_total s a \<and>
         unique_ids (snd (remove userId transactionId s))"
proof -
  let ?s' = "snd (remove userId transactionId s)"
  from remove_outcome [of userId transactionId s] show ?thesis
  proof
    assume "?s' = s"
    with assms show ?thesis by simp
  next
    assume "\<exists>b. remove userId transactionId s = (Inr (200, b), ?s')"
    then obtain b where "remove userId transactionId s = (Inr (200, b), ?s')" ..
    from remove_success [OF this] obtain existing acc where
      f: "transaction_findFirst s transactionId userId = Some existing"
      and acc: "accounts s (tx_accountId existing) = Some acc"
      and accs: "accounts ?s' = (accounts s)(tx_accountId existing \<mapsto>
                            acc\<lparr>acc_balance := acc_balance acc + tx_amount existing\<rparr>)"
      and txs: "transactions ?s' = filter (\<lambda>t. tx_id t \<noteq> transactionId) (transactions s)"
      by blast
    from findFirst_row [OF f] have row: "existing \<in> set (transactions s)"
      and tid: "transactionId = tx_id existing"
      by auto
    from assms have d: "distinct (map tx_id (transactions s))"
      by (simp add: unique_ids_def)
    from txs tid have txs': "transactions ?s' =
        filter (\<lambda>t. tx_id t \<noteq> tx_id existing) (transactions s)"
      by simp
    have "ledger_sum ?s' a =
        ledger_sum s a - (if tx_accountId existing = a then tx_amount existing else 0)"
      unfolding ledger_sum_alt txs' by (rule sum_delete_row [OF d row])
    then have "account_total ?s' a = account_total s a"
      using acc accs by (auto simp: account_total_def split: option.splits)
    moreover have "unique_ids ?s'"
      using d txs by (simp add: unique_ids_def distinct_map_filter)
    ultimately show ?thesis ..
  qed
qed

lemma patch_account_total:
  assumes "unique_ids s"
    and "fst (patch userId transactionId input s) \<noteq> Inr (404, ErrorBody ''New account not found'')"
  shows "account_total (snd (patch userId transactionId input s)) a = account_total s a \<and>
         unique_ids (snd (patch userId transactionId input s))"
proof -
  let ?s' = "snd (patch userId transactionId input s)"
  from patch_outcome [of userId transactionId input s] assms(2)
  have "?s' = s \<or> (\<exists>b. patch userId transactionId input s = (Inr (200, b), ?s'))"
    by blast
  then show ?thesis
  proof
    assume "?s' = s"
    with assms show ?thesis by simp
  next
    assume "\<exists>b. patch userId transactionId input s = (Inr (200, b), ?s')"
    then obtain b where ok: "patch userId transactionId input s = (Inr (200, b), ?s')" ..
    then obtain existing where f: "transaction_findFirst s transactionId userId = Some existing"
      by (auto simp: patch_def prisma_transaction_Inr split: option.splits)
    let ?next = "merge_next existing input"
    from findFirst_row [OF f] have row: "existing \<in> set (transactions s)"
      and tid: "transactionId = tx_id existing"
      by auto
    from assms have d: "distinct (map tx_id (transactions s))"
      by (simp add: unique_ids_def)
    from patch_success [OF f ok] obtain tx where
      "transactions tx =
         map (\<lambda>t. if tx_id t = transactionId then ?next else t) (transactions s)"
      and "reconcile_spend existing ?next
             (spendingAmount (tx_categoryId existing) (tx_amount existing))
             (spendingAmount (tx_categoryId ?next) (tx_amount ?next)) tx = Inr ?s'"
      by blast
    with reconcile_spend_frame [of existing ?next _ _ tx ?s'] tid
    have txs: "transactions ?s' =
         map (\<lambda>t. if tx_id t = tx_id existing then ?next else t) (transactions s)"
      by simp
    have sums: "ledger_sum ?s' a =
        ledger_sum s a - (if tx_accountId existing = a then tx_amount existing else 0)
          + (if tx_accountId ?next = a then tx_amount ?next else 0)"
      unfolding ledger_sum_alt txs by (rule sum_replace_row [OF d row])
    from patch_success_accounts [OF f ok] obtain acc where
      acc: "accounts s (tx_accountId existing) = Some acc"
      and accs: "if tx_accountId ?next = tx_accountId existing
            then accounts ?s' = (accounts s)(tx_accountId existing \<mapsto>
                   acc\<lparr>acc_balance := acc_balance acc +
                          (tx_amount existing - tx_amount ?next)\<rparr>)
            else \<exists>acc2. accounts s (tx_accountId ?next) = Some acc2 \<and>
                   accounts ?s' = (accounts s)
                     (tx_accountId existing \<mapsto>
                        acc\<lparr>acc_balance := acc_balance acc + tx_amount existing\<rparr>,
                      tx_accountId ?next \<mapsto>
                        acc2\<lparr>acc_balance := acc_balance acc2 - tx_amount ?next\<rparr>)"
      by blast
    have "account_total ?s' a = account_total s a"
    proof (cases "tx_accountId ?next = tx_accountId existing")
      case True
      with accs acc sums show ?thesis
        by (auto simp: account_total_def split: option.splits)
    next
      case False
      with accs obtain acc2 where "accounts s (tx_accountId ?next) = Some acc2"
        and "accounts ?s' = (accounts s)
                     (tx_accountId existing \<mapsto>
                        acc\<lparr>acc_balance := acc_balance acc + tx_amount existing\<rparr>,
                      tx_accountId ?next \<mapsto>
                        acc2\<lparr>acc_balance := acc_balance acc2 - tx_amount ?next\<rparr>)"
        by auto
      with False acc sums show ?thesis
        by (auto simp: account_total_def split: option.splits)
    qed
    moreover have "tx_id ?next = tx_id existing"
      by (simp add: merge_next_def)
    then have "map tx_id (transactions ?s') = map tx_id (transactions s)"
      unfolding txs by (rule map_replace_ids)
    then have "unique_ids ?s'"
      using d by (simp add: unique_ids_def)
    ultimately show ?thesis ..
  qed
qed

lemma apply_op_account_total:
  assumes "unique_ids s" and "\<not> swap_rejected x s"
  shows "account_total (snd (apply_op x s)) a = account_total s a \<and>
         unique_ids (snd (apply_op x s))"
proof (cases x)
  case (Create userId newId input)
  with create_account_total [OF assms(1)] show ?thesis by simp
next
  case (Patch userId transactionId input)
  with patch_account_total [OF assms(1)] assms(2) show ?thesis
    by (simp add: swap_rejected_def)
next
  case (Remove userId transactionId)
  with remove_account_total [OF assms(1)] show ?thesis by simp
qed





section \<open>The spend identity without the rejected swap\<close>

lemma spend_sum_alt:
  "spend_sum s c =
     sum_list (map (\<lambda>t. if tx_categoryId t = Some c
                         then spendingAmount (tx_categoryId t) (tx_amount t) else 0)
                   (transactions s))"
  by (simp add: spend_sum_def sum_list_map_filter')

lemma reconcile_spend_categories:
  assumes "reconcile_spend existing next oldSpend newSpend tx = Inr tx'"
    and "oldSpend = spendingAmount (tx_categoryId existing) (tx_amount existing)"
    and "newSpend = spendingAmount (tx_categoryId next) (tx_amount next)"
  shows "map_option cat_spent (categories tx' c) =
         map_option (\<lambda>x. x - (if tx_categoryId existing = Some c then oldSpend else 0)
                            + (if tx_categoryId next = Some c then newSpend else 0))
                    (map_option cat_spent (categories tx c))"
  using assms
  by (auto simp: reconcile_spend_def then_tx_eq_Inr category_update_spent_Inr
      spendingAmount_def option.map_comp comp_def option.map_ident
      split: if_splits)


lemma create_category_gap:
  assumes "unique_ids s"
  shows "category_gap (snd (create userId newId input s)) c = category_gap s c"
proof -
  let ?s' = "snd (create userId newId input s)"
  let ?spend = "spendingAmount (ci_categoryId input) (ci_amount input)"
  from create_outcome [of userId newId input s] show ?thesis
  proof
    assume "?s' = s"
    then show ?thesis by simp
  next
    assume "\<exists>b. create userId newId input s = (Inr (201, b), ?s')"
    then obtain b where "create userId newId input s = (Inr (201, b), ?s')" ..
    from create_success [OF this] have
      txs: "transactions ?s' = transactions s @ [created_row newId input]"
      and cats: "if 0 < ?spend
            then \<exists>cid cat. ci_categoryId input = Some cid \<and> categories s cid = Some cat \<and>
                   categories ?s' = (categories s)(cid \<mapsto>
                      cat\<lparr>cat_spent := cat_spent cat + ci_amount input\<rparr>)
            else categories ?s' = categories s"
      by auto
    have sums: "spend_sum ?s' c =
        spend_sum s c + (if ci_categoryId input = Some c then ?spend else 0)"
      unfolding spend_sum_alt txs by (simp add: created_row_def)
    show ?thesis
    proof (cases "0 < ?spend")
      case True
      with cats obtain cid cat where "ci_categoryId input = Some cid"
        and "categories s cid = Some cat"
        and "categories ?s' = (categories s)(cid \<mapsto>
                      cat\<lparr>cat_spent := cat_spent cat + ci_amount input\<rparr>)"
        by auto
      moreover from True have "?spend = ci_amount input"
        by (simp add: spendingAmount_def split: if_splits)
      ultimately show ?thesis
        using sums by (auto simp: category_gap_def split: option.splits)
    next
      case False
      then have "?spend = 0"
        by (simp add: spendingAmount_def split: if_splits)
      with False cats sums show ?thesis
        by (auto simp: category_gap_def split: option.splits)
    qed
  qed
qed

lemma remove_category_gap:
  assumes "unique_ids s"
  shows "category_gap (snd (remove userId transactionId s)) c = category_gap s c"
proof -
  let ?s' = "snd (remove userId transactionId s)"
  from remove_outcome [of userId transactionId s] show ?thesis
  proof
    assume "?s' = s"
    then show ?thesis by simp
  next
    assume "\<exists>b. remove userId transactionId s = (Inr (200, b), ?s')"
    then obtain b where "remove userId transactionId s = (Inr (200, b), ?s')" ..
    from remove_success [OF this] obtain existing where
      f: "transaction_findFirst s transactionId userId = Some existing"
      and txs: "transactions ?s' = filter (\<lambda>t. tx_id t \<noteq> transactionId) (transactions s)"
      and cats: "if 0 < spendingAmount (tx_categoryId existing) (tx_amount existing)
            then \<exists>cid cat. tx_categoryId existing = Some cid \<and> categories s cid = Some cat \<and>
                   categories ?s' = (categories s)(cid \<mapsto>
                      cat\<lparr>cat_spent := cat_spent cat - tx_amount existing\<rparr>)
            else categories ?s' = categories s"
      by blast
    let ?old = "spendingAmount (tx_categoryId existing) (tx_amount existing)"
    from findFirst_row [OF f] have row: "existing \<in> set (transactions s)"
      and tid: "transactionId = tx_id existing"
      by auto
    from assms have d: "distinct (map tx_id (transactions s))"
      by (simp add: unique_ids_def)
    from txs tid have txs': "transactions ?s' =
        filter (\<lambda>t. tx_id t \<noteq> tx_id existing) (transactions s)"
      by simp
    have sums: "spend_sum ?s' c =
        spend_sum s c - (if tx_categoryId existing = Some c then ?old else 0)"
      unfolding spend_sum_alt txs' by (rule sum_delete_row [OF d row])
    show ?thesis
    proof (cases "0 < ?old")
      case True
      with cats obtain cid cat where "tx_categoryId existing = Some cid"
        and "categories s cid = Some cat"
        and "categories ?s' = (categories s)(cid \<mapsto>
                      cat\<lparr>cat_spent := cat_spent cat - tx_amount existing\<rparr>)"
        by auto
      moreover from True have "?old = tx_amount existing"
        by (simp add: spendingAmount_def split: if_splits)
      ultimately show ?thesis
        using sums by (auto simp: category_gap_def split: option.splits)
    next
      case False
      then have "?old = 0"
        by (simp add: spendingAmount_def split: if_splits)
      with False cats sums show ?thesis
        by (auto simp: category_gap_def split: option.splits)
    qed
  qed
qed

lemma patch_category_gap:
  assumes "unique_ids s"
    and "fst (patch userId transactionId input s) \<noteq> Inr (404, ErrorBody ''New account not found'')"
  shows "category_gap (snd (patch userId transactionId input s)) c = category_gap s c"
proof -
  let ?s' = "snd (patch userId transactionId input s)"
  from patch_outcome [of userId transactionId input s] assms(2)
  have "?s' = s \<or> (\<exists>b. patch userId transactionId input s = (Inr (200, b), ?s'))"
    by blast
  then show ?thesis
  proof
    assume "?s' = s"
    then show ?thesis by simp
  next
    assume "\<exists>b. patch userId transactionId input s = (Inr (200, b), ?s')"
    then obtain b where ok: "patch userId transactionId input s = (Inr (200, b), ?s')" ..
    then obtain existing where f: "transaction_findFirst s transactionId userId = Some existing"
      by (auto simp: patch_def prisma_transaction_Inr split: option.splits)
    let ?next = "merge_next existing input"
    let ?old = "spendingAmount (tx_categoryId existing) (tx_amount existing)"
    let ?new = "spendingAmount (tx_categoryId ?next) (tx_amount ?next)"
    from findFirst_row [OF f] have row: "existing \<in> set (transactions s)"
      and tid: "transactionId = tx_id existing"
      by auto
    from assms have d: "distinct (map tx_id (transactions s))"
      by (simp add: unique_ids_def)
    from patch_success [OF f ok] obtain tx where
      cats: "categories tx = categories s"
      and rows: "transactions tx =
         map (\<lambda>t. if tx_id t = transactionId then ?next else t) (transactions s)"
      and rec: "reconcile_spend existing ?next ?old ?new tx = Inr ?s'"
      by blast
    from reconcile_spend_frame [OF rec] rows tid
    have txs: "transactions ?s' =
         map (\<lambda>t. if tx_id t = tx_id existing then ?next else t) (transactions s)"
      by simp
    have sums: "spend_sum ?s' c =
        spend_sum s c - (if tx_categoryId existing = Some c then ?old else 0)
          + (if tx_categoryId ?next = Some c then ?new else 0)"
      unfolding spend_sum_alt txs by (rule sum_replace_row [OF d row])
    from reconcile_spend_categories [OF rec refl refl, of c] cats
    have "map_option cat_spent (categories ?s' c) =
         map_option (\<lambda>x. x - (if tx_categoryId existing = Some c then ?old else 0)
                            + (if tx_categoryId ?next = Some c then ?new else 0))
                    (map_option cat_spent (categories s c))"
      by simp
    with sums show ?thesis
      by (cases "categories s c"; cases "categories ?s' c") (auto simp: category_gap_def)
  qed
qed

lemma apply_op_category_gap:
  assumes "unique_ids s" and "\<not> swap_rejected x s"
  shows "category_gap (snd (apply_op x s)) c = category_gap s c"
proof (cases x)
  case (Create userId newId input)
  with create_category_gap [OF assms(1)] show ?thesis by simp
next
  case (Patch userId transactionId input)
  with patch_category_gap [OF assms(1)] assms(2) show ?thesis
    by (simp add: swap_rejected_def)
next
  case (Remove userId transactionId)
  with remove_category_gap [OF assms(1)] show ?thesis by simp
qed

text \<open>
  Apart from the rejected swap, no sequence of create, patch and remove operations changes
  the difference between a category's spent value and the spend contributions of its
  transactions: the spend identity, once true, stays true.
\<close>

lemma category_gap_preserved:
  assumes "unique_ids s" and "no_rejected_swap ops s"
  shows "category_gap (run ops s) c = category_gap s c"
  using assms
proof (induction ops arbitrary: s)
  case Nil
  then show ?case by simp
next
  case (Cons x ops)
  from Cons.prems have ok: "\<not> swap_rejected x s"
    and rest: "no_rejected_swap ops (snd (apply_op x s))"
    by simp_all
  from apply_op_account_total [OF Cons.prems(1) ok]
  have u: "unique_ids (snd (apply_op x s))"
    by simp
  from Cons.IH [OF u rest] apply_op_category_gap [OF Cons.prems(1) ok, of c] show ?case
    by simp
qed

lemma spend_identity_gap:
  "spend_identity s \<longleftrightarrow> (\<forall>c. category_gap s c = None \<or> category_gap s c = Some 0)"
  by (auto simp: spend_identity_def category_gap_def split: option.splits)

lemma spend_identity_preserved:
  assumes "unique_ids s" and "no_rejected_swap ops s" and "spend_identity s"
  shows "spend_identity (run ops s)"
  using assms by (simp add: spend_identity_gap category_gap_preserved)

end
